theory Spec2Isabelle
  imports Main
begin

section \<open>The authenticated request pipeline of footbook-mobile\<close>

text \<open>
  The development embeds \<^verbatim>\<open>services/api.ts\<close> (the axios instance \<^verbatim>\<open>api\<close> with
  its request interceptor and its response error interceptor),
  \<^verbatim>\<open>services/auth.ts\<close> (\<^verbatim>\<open>authService.login\<close>) and the token operations of
  \<^verbatim>\<open>contexts/AuthContext.tsx\<close> (\<^verbatim>\<open>login\<close>, \<^verbatim>\<open>logout\<close>).

  The asynchronous code is sequential between its \<^verbatim>\<open>await\<close>s, so every operation is a
  function from the world before it to its result and the world after it. The world holds
  the contents of the secure store, the React state of the auth context and the trace of
  every external effect performed so far. What the outside does (whether a store call
  throws, how a request is settled) is a parameter, the environment, indexed by the
  position of the effect in the trace. Calls of \<^verbatim>\<open>console.error\<close> are not recorded.
\<close>

subsection \<open>Data\<close>

type_synonym key = string

datatype body = NoBody | FormData "(string \<times> string) list" | JsonBody "(string \<times> string) list"

text \<open>A request configuration; \<open>retry\<close> is the \<^verbatim>\<open>_retry\<close> mark of the response interceptor.\<close>

record request_config =
  "method" :: string
  baseURL :: string
  url :: string
  headers :: "string \<rightharpoonup> string"
  body :: body
  retry :: bool

text \<open>A response; its \<open>data\<close> is a JSON object with string fields.\<close>

record response =
  status :: nat
  data :: "(string \<times> string) list"

text \<open>The error axios rejects with: \<open>response_of\<close> is \<^verbatim>\<open>error.response\<close>, absent on a
  network failure.\<close>

record axios_error =
  config :: request_config
  response_of :: "response option"
  message :: string

datatype client = Api | Axios

datatype event =
    Get key
  | Set key string
  | Delete key
  | Send client request_config

datatype failure =
    AxiosError axios_error
  | StoreFailure event
  | InvalidValue key

record tokens =
  accessToken :: string
  refreshToken :: string

text \<open>The React state of the auth context.\<close>

record session =
  isAuthenticated :: bool
  stateAccessToken :: "string option"
  stateRefreshToken :: "string option"
  loading :: bool

record world =
  items :: "key \<rightharpoonup> string"
  session :: session
  trace :: "event list"

datatype reply = Resolved response | Failed "response option" string

record env =
  store_fault :: "nat \<Rightarrow> bool"
  adapter :: "nat \<Rightarrow> request_config \<Rightarrow> reply"

definition emit :: "event \<Rightarrow> world \<Rightarrow> world" where
  "emit e w = w\<lparr>trace := trace w @ [e]\<rparr>"

definition now :: "world \<Rightarrow> nat" where
  "now w = length (trace w)"

subsection \<open>The secure store\<close>

text \<open>
  \<^verbatim>\<open>SecureStore.getItemAsync\<close>, \<^verbatim>\<open>setItemAsync\<close> and \<^verbatim>\<open>deleteItemAsync\<close>: a call that
  throws leaves the contents as they were. \<^verbatim>\<open>setItemAsync\<close> refuses a value that is not a
  string (\<^verbatim>\<open>undefined\<close>, here \<open>None\<close>) before it reaches the store.
\<close>

definition getItemAsync :: "env \<Rightarrow> key \<Rightarrow> world \<Rightarrow> (failure + string option) \<times> world" where
  "getItemAsync en k w =
     (if store_fault en (now w) then (Inl (StoreFailure (Get k)), emit (Get k) w)
      else (Inr (items w k), emit (Get k) w))"

definition setItemAsync :: "env \<Rightarrow> key \<Rightarrow> string option \<Rightarrow> world \<Rightarrow> (failure + unit) \<times> world" where
  "setItemAsync en k v w =
     (case v of
        None \<Rightarrow> (Inl (InvalidValue k), w)
      | Some s \<Rightarrow>
          if store_fault en (now w) then (Inl (StoreFailure (Set k s)), emit (Set k s) w)
          else (Inr (), emit (Set k s) (w\<lparr>items := (items w)(k \<mapsto> s)\<rparr>)))"

definition deleteItemAsync :: "env \<Rightarrow> key \<Rightarrow> world \<Rightarrow> (failure + unit) \<times> world" where
  "deleteItemAsync en k w =
     (if store_fault en (now w) then (Inl (StoreFailure (Delete k)), emit (Delete k) w)
      else (Inr (), emit (Delete k) (w\<lparr>items := (items w)(k := None)\<rparr>)))"

subsection \<open>services/api.ts\<close>

definition API_BASE_URL :: string where
  "API_BASE_URL = ''http://localhost:5000/api/v1''"

text \<open>A value inside a template literal: \<^verbatim>\<open>undefined\<close> prints as the word.\<close>

definition template :: "string option \<Rightarrow> string" where
  "template v = (case v of None \<Rightarrow> ''undefined'' | Some s \<Rightarrow> s)"

text \<open>The request interceptor (lines 14 to 25). A JavaScript string is truthy when it is
  not empty.\<close>

definition request_interceptor :: "env \<Rightarrow> world \<Rightarrow> request_config \<Rightarrow> request_config \<times> world" where
  "request_interceptor en w cfg =
     (case getItemAsync en ''accessToken'' w of
        (Inr (Some token), w1) \<Rightarrow>
          (if token \<noteq> [] then cfg\<lparr>headers := (headers cfg)(''Authorization'' \<mapsto> ''Bearer '' @ token)\<rparr>
           else cfg, w1)
      | (Inr None, w1) \<Rightarrow> (cfg, w1)
      | (Inl e, w1) \<Rightarrow> (cfg, w1))"

text \<open>Handing a request to the adapter: the environment settles it, and a rejection is an
  axios error that carries the configuration sent.\<close>

definition dispatch :: "client \<Rightarrow> env \<Rightarrow> world \<Rightarrow> request_config \<Rightarrow> (failure + response) \<times> world" where
  "dispatch c en w cfg =
     (case adapter en (now w) cfg of
        Resolved r \<Rightarrow> (Inr r, emit (Send c cfg) w)
      | Failed ro msg \<Rightarrow>
          (Inl (AxiosError \<lparr>config = cfg, response_of = ro, message = msg\<rparr>), emit (Send c cfg) w))"

text \<open>\<^verbatim>\<open>axios.post(url, data)\<close> on the global axios, which has no interceptors and
  no base URL.\<close>

definition post_config :: "string \<Rightarrow> body \<Rightarrow> request_config" where
  "post_config u b =
     \<lparr>method = ''post'', baseURL = [], url = u, headers = Map.empty, body = b, retry = False\<rparr>"

definition axios_post :: "env \<Rightarrow> world \<Rightarrow> string \<Rightarrow> body \<Rightarrow> (failure + response) \<times> world" where
  "axios_post en w u b = dispatch Axios en w (post_config u b)"

text \<open>The body of the \<^verbatim>\<open>try\<close> block (lines 42 to 58). \<open>Inr (Some r)\<close> is
  \<^verbatim>\<open>return api(originalRequest)\<close> with the request \<open>r\<close> to replay, \<open>Inr None\<close> is falling
  out of the block because no refresh token was read, \<open>Inl\<close> is a throw.\<close>

definition refresh_block :: "env \<Rightarrow> world \<Rightarrow> request_config \<Rightarrow> (failure + request_config option) \<times> world" where
  "refresh_block en w originalRequest =
     (case getItemAsync en ''refreshToken'' w of
        (Inl e, w1) \<Rightarrow> (Inl e, w1)
      | (Inr None, w1) \<Rightarrow> (Inr None, w1)
      | (Inr (Some rt), w1) \<Rightarrow>
          if rt = [] then (Inr None, w1)
          else
            (case axios_post en w1 (API_BASE_URL @ ''/auth/refresh'') (JsonBody [(''refreshToken'', rt)]) of
               (Inl e, w2) \<Rightarrow> (Inl e, w2)
             | (Inr resp, w2) \<Rightarrow>
                 (case setItemAsync en ''accessToken'' (map_of (data resp) ''accessToken'') w2 of
                    (Inl e, w3) \<Rightarrow> (Inl e, w3)
                  | (Inr _, w3) \<Rightarrow>
                      (case setItemAsync en ''refreshToken'' (map_of (data resp) ''refreshToken'') w3 of
                         (Inl e, w4) \<Rightarrow> (Inl e, w4)
                       | (Inr _, w4) \<Rightarrow>
                           (Inr (Some (originalRequest
                              \<lparr>headers := (headers originalRequest)
                                 (''Authorization'' \<mapsto> ''Bearer '' @ template (map_of (data resp) ''accessToken''))\<rparr>)),
                            w4)))))"

text \<open>The \<^verbatim>\<open>catch\<close> block (lines 59 to 64): a deletion that throws leaves the handler
  with that error.\<close>

definition clear_tokens :: "env \<Rightarrow> world \<Rightarrow> (failure + unit) \<times> world" where
  "clear_tokens en w =
     (case deleteItemAsync en ''accessToken'' w of
        (Inl e, w1) \<Rightarrow> (Inl e, w1)
      | (Inr _, w1) \<Rightarrow> deleteItemAsync en ''refreshToken'' w1)"

datatype handled = Reject failure | Replay request_config

definition is401 :: "axios_error \<Rightarrow> bool" where
  "is401 err = (case response_of err of None \<Rightarrow> False | Some r \<Rightarrow> status r = 401)"

text \<open>The response error interceptor (lines 34 to 69). \<^verbatim>\<open>originalRequest\<close> is the object
  \<^verbatim>\<open>error.config\<close>, so marking it marks the error's configuration too.\<close>

definition response_error_interceptor :: "env \<Rightarrow> world \<Rightarrow> axios_error \<Rightarrow> handled \<times> world" where
  "response_error_interceptor en w err =
     (if is401 err \<and> \<not> retry (config err) then
        (let originalRequest = (config err)\<lparr>retry := True\<rparr>;
             error = err\<lparr>config := originalRequest\<rparr>
         in case refresh_block en w originalRequest of
              (Inr (Some r), w1) \<Rightarrow> (Replay r, w1)
            | (Inr None, w1) \<Rightarrow> (Reject (AxiosError error), w1)
            | (Inl refreshError, w1) \<Rightarrow>
                (case clear_tokens en w1 of
                   (Inl e, w2) \<Rightarrow> (Reject e, w2)
                 | (Inr _, w2) \<Rightarrow> (Reject (AxiosError error), w2)))
      else (Reject (AxiosError err), w))"

text \<open>The instance \<^verbatim>\<open>api\<close> called on a configuration: request interceptor, adapter,
  response interceptors. A replayed request goes through the whole pipeline again.\<close>

function api :: "env \<Rightarrow> world \<Rightarrow> request_config \<Rightarrow> (failure + response) \<times> world" where
  "api en w cfg =
     (case request_interceptor en w cfg of
        (c1, w1) \<Rightarrow>
          (case dispatch Api en w1 c1 of
             (Inr resp, w2) \<Rightarrow> (Inr resp, w2)
           | (Inl (AxiosError err), w2) \<Rightarrow>
               (case response_error_interceptor en w2 err of
                  (Reject f, w3) \<Rightarrow> (Inl f, w3)
                | (Replay r, w3) \<Rightarrow> api en w3 r)
           | (Inl f, w2) \<Rightarrow> (Inl f, w2)))"
  by pat_completeness auto
termination
  by (relation "measure (\<lambda>(en, w, cfg). if retry cfg then 0 else 1)")
    (auto simp: response_error_interceptor_def refresh_block_def request_interceptor_def
       dispatch_def Let_def
       split: if_splits prod.splits sum.splits option.splits reply.splits)

declare api.simps [simp del]

text \<open>\<^verbatim>\<open>api.post(url, data, config)\<close>: the instance's defaults (line 6 to 11) under the
  headers of the call.\<close>

definition api_headers :: "string \<rightharpoonup> string" where
  "api_headers = [''Content-Type'' \<mapsto> ''application/json'']"

definition api_post_config :: "string \<Rightarrow> body \<Rightarrow> (string \<rightharpoonup> string) \<Rightarrow> request_config" where
  "api_post_config u b hs =
     \<lparr>method = ''post'', baseURL = API_BASE_URL, url = u, headers = api_headers ++ hs,
      body = b, retry = False\<rparr>"

definition api_post ::
  "env \<Rightarrow> world \<Rightarrow> string \<Rightarrow> body \<Rightarrow> (string \<rightharpoonup> string) \<Rightarrow> (failure + response) \<times> world" where
  "api_post en w u b hs = api en w (api_post_config u b hs)"

subsection \<open>services/auth.ts\<close>

record LoginRequest =
  email :: string
  password :: string

definition authService_login ::
  "env \<Rightarrow> world \<Rightarrow> LoginRequest \<Rightarrow> (failure + (string \<times> string) list) \<times> world" where
  "authService_login en w credentials =
     (let formData = FormData [(''email'', email credentials), (''password'', password credentials)]
      in case api_post en w ''/auth/login'' formData [''Content-Type'' \<mapsto> ''multipart/form-data''] of
           (Inl e, w1) \<Rightarrow> (Inl e, w1)
         | (Inr resp, w1) \<Rightarrow> (Inr (data resp), w1))"

subsection \<open>contexts/AuthContext.tsx\<close>

text \<open>\<^verbatim>\<open>login\<close> logs and rethrows what the store throws; \<^verbatim>\<open>logout\<close> logs it and
  returns.\<close>

definition login :: "env \<Rightarrow> world \<Rightarrow> tokens \<Rightarrow> (failure + unit) \<times> world" where
  "login en w t =
     (case setItemAsync en ''accessToken'' (Some (accessToken t)) w of
        (Inl e, w1) \<Rightarrow> (Inl e, w1)
      | (Inr _, w1) \<Rightarrow>
          (case setItemAsync en ''refreshToken'' (Some (refreshToken t)) w1 of
             (Inl e, w2) \<Rightarrow> (Inl e, w2)
           | (Inr _, w2) \<Rightarrow>
               (Inr (), w2\<lparr>session := (session w2)
                  \<lparr>isAuthenticated := True,
                   stateAccessToken := Some (accessToken t),
                   stateRefreshToken := Some (refreshToken t)\<rparr>\<rparr>)))"

definition logout :: "env \<Rightarrow> world \<Rightarrow> world" where
  "logout en w =
     (case deleteItemAsync en ''accessToken'' w of
        (Inl e, w1) \<Rightarrow> w1
      | (Inr _, w1) \<Rightarrow>
          (case deleteItemAsync en ''refreshToken'' w1 of
             (Inl e, w2) \<Rightarrow> w2
           | (Inr _, w2) \<Rightarrow>
               w2\<lparr>session := (session w2)
                  \<lparr>isAuthenticated := False, stateAccessToken := None, stateRefreshToken := None\<rparr>\<rparr>))"

subsection \<open>Reading the trace\<close>

text \<open>The events an operation added, the refresh calls and the requests of the instance
  among them, and a store that holds both tokens or neither.\<close>

definition added :: "world \<Rightarrow> world \<Rightarrow> event list" where
  "added w w' = drop (now w) (trace w')"

fun is_refresh :: "event \<Rightarrow> bool" where
  "is_refresh (Send Axios c) = True"
| "is_refresh e = False"

fun is_send :: "event \<Rightarrow> bool" where
  "is_send (Send Api c) = True"
| "is_send e = False"

fun is_write :: "event \<Rightarrow> bool" where
  "is_write (Set k v) = True"
| "is_write (Delete k) = True"
| "is_write e = False"

definition whole :: "(key \<rightharpoonup> string) \<Rightarrow> bool" where
  "whole m = ((m ''accessToken'' = None) = (m ''refreshToken'' = None))"

definition refresh_request :: "string \<Rightarrow> request_config" where
  "refresh_request rt =
     post_config (API_BASE_URL @ ''/auth/refresh'') (JsonBody [(''refreshToken'', rt)])"

text \<open>The configuration \<^verbatim>\<open>authService.login\<close> hands to the instance.\<close>

definition login_config :: "LoginRequest \<Rightarrow> request_config" where
  "login_config c =
     api_post_config ''/auth/login''
       (FormData [(''email'', email c), (''password'', password c)])
       [''Content-Type'' \<mapsto> ''multipart/form-data'']"

text \<open>The error object after line 39 has marked its request.\<close>

definition marked :: "axios_error \<Rightarrow> axios_error" where
  "marked err = err\<lparr>config := (config err)\<lparr>retry := True\<rparr>\<rparr>"

subsection \<open>Scenarios\<close>

text \<open>A server that issues the pair \<open>A1\<close>, \<open>R1\<close> at login, rotates every refresh token
  but the expired \<open>R0\<close> into the pair \<open>A2\<close>, \<open>R2\<close> and accepts any other request only under the access
  token \<open>A2\<close>; a secure store that throws at the moments \<open>f\<close> names (never, at one
  moment, from one moment on); some store contents, requests and errors.\<close>

definition unauthorized :: response where
  "unauthorized = \<lparr>status = 401, data = []\<rparr>"

definition fresh_pair :: response where
  "fresh_pair = \<lparr>status = 200, data = [(''accessToken'', ''A2''), (''refreshToken'', ''R2'')]\<rparr>"

definition accepted :: response where
  "accepted = \<lparr>status = 200, data = [(''name'', ''Pitch 1'')]\<rparr>"

definition issued_pair :: response where
  "issued_pair = \<lparr>status = 200, data = [(''accessToken'', ''A1''), (''refreshToken'', ''R1'')]\<rparr>"

definition server :: "nat \<Rightarrow> request_config \<Rightarrow> reply" where
  "server t c =
     (if url c = ''/auth/login'' then
        (if body c = FormData [(''email'', ''ann@example.com''), (''password'', ''secret1'')]
         then Resolved issued_pair
         else Failed (Some unauthorized) ''Request failed with status code 401'')
      else if url c = API_BASE_URL @ ''/auth/refresh'' then
        (if body c = JsonBody [(''refreshToken'', ''R0'')]
         then Failed (Some unauthorized) ''Request failed with status code 401''
         else Resolved fresh_pair)
      else if headers c ''Authorization'' = Some ''Bearer A2'' then Resolved accepted
      else Failed (Some unauthorized) ''Request failed with status code 401'')"

definition never :: "nat \<Rightarrow> bool" where
  "never t = False"

definition only_at :: "nat \<Rightarrow> nat \<Rightarrow> bool" where
  "only_at n t = (t = n)"

definition from_moment :: "nat \<Rightarrow> nat \<Rightarrow> bool" where
  "from_moment n t = (n \<le> t)"

definition device :: "(nat \<Rightarrow> bool) \<Rightarrow> env" where
  "device f = \<lparr>store_fault = f, adapter = server\<rparr>"

definition signed_out :: session where
  "signed_out = \<lparr>isAuthenticated = False, stateAccessToken = None, stateRefreshToken = None,
     loading = False\<rparr>"

definition stored_pair :: world where
  "stored_pair = \<lparr>items = [''accessToken'' \<mapsto> ''A1'', ''refreshToken'' \<mapsto> ''R1''],
     session = signed_out, trace = []\<rparr>"

definition stale_pair :: world where
  "stale_pair = \<lparr>items = [''accessToken'' \<mapsto> ''A0'', ''refreshToken'' \<mapsto> ''R0''],
     session = signed_out, trace = []\<rparr>"

definition empty_access :: world where
  "empty_access = \<lparr>items = [''accessToken'' \<mapsto> [], ''refreshToken'' \<mapsto> ''R1''],
     session = signed_out, trace = []\<rparr>"

definition empty_refresh :: world where
  "empty_refresh = \<lparr>items = [''accessToken'' \<mapsto> ''A1'', ''refreshToken'' \<mapsto> []],
     session = signed_out, trace = []\<rparr>"

definition access_only :: world where
  "access_only = \<lparr>items = [''accessToken'' \<mapsto> ''A1''], session = signed_out, trace = []\<rparr>"

definition empty_store :: world where
  "empty_store = \<lparr>items = Map.empty, session = signed_out, trace = []\<rparr>"

definition fields_request :: request_config where
  "fields_request = \<lparr>method = ''get'', baseURL = API_BASE_URL, url = ''/fields'',
     headers = api_headers, body = NoBody, retry = False\<rparr>"

definition signed_request :: request_config where
  "signed_request = \<lparr>method = ''get'', baseURL = API_BASE_URL, url = ''/fields'',
     headers = api_headers(''Authorization'' \<mapsto> ''Bearer X''), body = NoBody, retry = False\<rparr>"

definition ann :: LoginRequest where
  "ann = \<lparr>email = ''ann@example.com'', password = ''secret1''\<rparr>"

definition server_error :: "request_config \<Rightarrow> axios_error" where
  "server_error c = \<lparr>config = c, response_of = Some \<lparr>status = 500, data = []\<rparr>,
     message = ''Request failed with status code 500''\<rparr>"

definition network_error :: "request_config \<Rightarrow> axios_error" where
  "network_error c = \<lparr>config = c, response_of = None, message = ''Network Error''\<rparr>"

definition rejected :: "request_config \<Rightarrow> axios_error" where
  "rejected c = \<lparr>config = c, response_of = Some unauthorized,
     message = ''Request failed with status code 401''\<rparr>"

section \<open>Properties\<close>

subsection \<open>Effects on the world\<close>

lemma now_emit [simp]: "now (emit e w) = Suc (now w)"
  by (simp add: now_def emit_def)

lemma now_items [simp]: "now (w\<lparr>items := m\<rparr>) = now w"
  by (simp add: now_def)

lemma trace_emit [simp]: "trace (emit e w) = trace w @ [e]"
  by (simp add: emit_def)

lemma items_emit [simp]: "items (emit e w) = items w"
  by (simp add: emit_def)

lemma session_emit [simp]: "session (emit e w) = session w"
  by (simp add: emit_def)

lemma snd_getItemAsync [simp]: "snd (getItemAsync en k w) = emit (Get k) w"
  by (simp add: getItemAsync_def)

lemma snd_dispatch [simp]: "snd (dispatch c en w cfg) = emit (Send c cfg) w"
  by (simp add: dispatch_def split: reply.splits)

lemma snd_request_interceptor [simp]:
  "snd (request_interceptor en w cfg) = emit (Get ''accessToken'') w"
  by (simp add: request_interceptor_def getItemAsync_def split: option.splits)

lemma request_interceptor_retry:
  "retry (fst (request_interceptor en w cfg)) = retry cfg"
  by (simp add: request_interceptor_def getItemAsync_def split: option.splits)

lemma api_unfold:
  "api en w cfg =
     (let c1 = fst (request_interceptor en w cfg); w1 = emit (Get ''accessToken'') w in
      case adapter en (now w1) c1 of
        Resolved r \<Rightarrow> (Inr r, emit (Send Api c1) w1)
      | Failed ro m \<Rightarrow>
          (case response_error_interceptor en (emit (Send Api c1) w1) \<lparr>config = c1, response_of = ro, message = m\<rparr> of
             (Reject f, w3) \<Rightarrow> (Inl f, w3)
           | (Replay r, w3) \<Rightarrow> api en w3 r))"
proof -
  obtain c1 w1 where ri: "request_interceptor en w cfg = (c1, w1)" by (cases "request_interceptor en w cfg")
  then have w1: "w1 = emit (Get ''accessToken'') w" using snd_request_interceptor [of en w cfg] by simp
  show ?thesis
    apply (subst api.simps)
    apply (simp add: ri w1 dispatch_def Let_def split: reply.splits)
    done
qed

lemma api_retried:
  "retry cfg \<Longrightarrow> api en w cfg = dispatch Api en (emit (Get ''accessToken'') w) (fst (request_interceptor en w cfg))"
  apply (subst api_unfold)
  apply (simp add: Let_def dispatch_def response_error_interceptor_def request_interceptor_retry split: reply.splits)
  done


lemma refresh_block_absent:
  "\<not> store_fault en (now w) \<Longrightarrow> items w ''refreshToken'' = None \<or> items w ''refreshToken'' = Some [] \<Longrightarrow>
   refresh_block en w r = (Inr None, emit (Get ''refreshToken'') w)"
  by (auto simp: refresh_block_def getItemAsync_def)

lemma refresh_block_trace:
  "\<exists>evs. trace (snd (refresh_block en w r)) = trace w @ evs \<and> length (filter is_refresh evs) \<le> 1 \<and> filter is_send evs = []"
  by (auto simp: refresh_block_def getItemAsync_def axios_post_def dispatch_def setItemAsync_def
      split: option.splits reply.splits)

lemma clear_tokens_trace:
  "\<exists>evs. trace (snd (clear_tokens en w)) = trace w @ evs \<and> filter is_refresh evs = [] \<and> filter is_send evs = []"
  by (auto simp: clear_tokens_def deleteItemAsync_def)

lemma interceptor_trace:
  "\<exists>evs. trace (snd (response_error_interceptor en w err)) = trace w @ evs \<and> length (filter is_refresh evs) \<le> 1 \<and> filter is_send evs = []"
proof (cases "is401 err \<and> \<not> retry (config err)")
  case False
  then show ?thesis by (auto simp: response_error_interceptor_def)
next
  case True
  let ?r = "(config err)\<lparr>retry := True\<rparr>"
  obtain x w1 where rb: "refresh_block en w ?r = (x, w1)" by (cases "refresh_block en w ?r")
  obtain evs where e1: "trace w1 = trace w @ evs" "length (filter is_refresh evs) \<le> 1" "filter is_send evs = []"
    using refresh_block_trace [of en w ?r] rb by auto
  obtain evs2 where e2: "trace (snd (clear_tokens en w1)) = trace w1 @ evs2" "filter is_refresh evs2 = []" "filter is_send evs2 = []"
    using clear_tokens_trace [of en w1] by auto
  show ?thesis
    using True rb e1 e2
    by (cases x) (auto simp: response_error_interceptor_def Let_def split: option.splits prod.splits sum.splits)
qed

lemma replay_marked:
  "response_error_interceptor en w err = (Replay r, w') \<Longrightarrow> retry r"
  by (auto simp: response_error_interceptor_def refresh_block_def Let_def
      split: if_splits prod.splits sum.splits option.splits)


lemma api_trace:
  "\<exists>evs. trace (snd (api en w cfg)) =
       trace w @ Get ''accessToken'' # Send Api (fst (request_interceptor en w cfg)) # evs \<and>
     length (filter is_refresh evs) \<le> 1 \<and> length (filter is_send evs) \<le> 1"
proof -
  let ?c1 = "fst (request_interceptor en w cfg)"
  let ?w1 = "emit (Get ''accessToken'') w"
  let ?w2 = "emit (Send Api ?c1) ?w1"
  show ?thesis
  proof (cases "adapter en (now ?w1) ?c1")
    case (Resolved r)
    then show ?thesis by (subst api_unfold) (simp add: Let_def)
  next
    case (Failed ro m)
    let ?err = "\<lparr>config = ?c1, response_of = ro, message = m\<rparr>"
    obtain h w3 where h: "response_error_interceptor en ?w2 ?err = (h, w3)"
      by (cases "response_error_interceptor en ?w2 ?err")
    obtain evs where e: "trace w3 = trace ?w2 @ evs" "length (filter is_refresh evs) \<le> 1" "filter is_send evs = []"
      using interceptor_trace [of en ?w2 ?err] h by auto
    show ?thesis
    proof (cases h)
      case (Reject f)
      with Failed h e show ?thesis by (subst api_unfold) (simp add: Let_def)
    next
      case (Replay r)
      with h have "retry r" by (simp add: replay_marked)
      then have "api en w3 r = dispatch Api en (emit (Get ''accessToken'') w3) (fst (request_interceptor en w3 r))"
        by (rule api_retried)
      with Failed h e Replay show ?thesis by (subst api_unfold) (simp add: Let_def)
    qed
  qed
qed

lemma added_append: "trace w' = trace w @ evs \<Longrightarrow> added w w' = evs"
  by (simp add: added_def now_def)

lemma api_first_events:
  "take 2 (added w (snd (api en w cfg))) = [Get ''accessToken'', Send Api (fst (request_interceptor en w cfg))]"
proof -
  obtain evs where "trace (snd (api en w cfg)) =
       trace w @ Get ''accessToken'' # Send Api (fst (request_interceptor en w cfg)) # evs"
    using api_trace [of en w cfg] by auto
  then show ?thesis by (simp add: added_append)
qed

lemma interceptor_passthrough:
  "\<not> is401 err \<or> retry (config err) \<Longrightarrow> response_error_interceptor en w err = (Reject (AxiosError err), w)"
  by (auto simp: response_error_interceptor_def)

lemma api_passthrough:
  assumes "adapter en (now w + 1) (fst (request_interceptor en w cfg)) = Failed ro m"
    and "\<not> is401 \<lparr>config = fst (request_interceptor en w cfg), response_of = ro, message = m\<rparr> \<or> retry cfg"
  shows "api en w cfg =
     (Inl (AxiosError \<lparr>config = fst (request_interceptor en w cfg), response_of = ro, message = m\<rparr>),
      emit (Send Api (fst (request_interceptor en w cfg))) (emit (Get ''accessToken'') w))"
  using assms
  by (subst api_unfold) (auto simp: Let_def interceptor_passthrough request_interceptor_retry)

lemma added_self [simp]: "added w w = []"
  by (simp add: added_def now_def)

lemmas scenario_defs = device_def never_def only_at_def from_moment_def server_def stored_pair_def stale_pair_def empty_store_def
  fields_request_def rejected_def unauthorized_def fresh_pair_def issued_pair_def accepted_def
  signed_out_def API_BASE_URL_def api_headers_def refresh_request_def post_config_def marked_def

lemmas operation_defs = response_error_interceptor_def refresh_block_def getItemAsync_def
  setItemAsync_def deleteItemAsync_def axios_post_def dispatch_def clear_tokens_def
  request_interceptor_def is401_def template_def now_def emit_def

lemma interceptor_whole:
  assumes "\<forall>t. \<not> store_fault en t" and "whole (items w)"
  shows "whole (items (snd (response_error_interceptor en w err)))"
  using assms
  by (auto simp: response_error_interceptor_def refresh_block_def getItemAsync_def axios_post_def
      dispatch_def setItemAsync_def clear_tokens_def deleteItemAsync_def whole_def Let_def
      split: option.splits reply.splits)

lemma api_whole:
  assumes "\<forall>t. \<not> store_fault en t" and "whole (items w)"
  shows "whole (items (snd (api en w cfg)))"
proof -
  let ?c1 = "fst (request_interceptor en w cfg)"
  let ?w1 = "emit (Get ''accessToken'') w"
  let ?w2 = "emit (Send Api ?c1) ?w1"
  show ?thesis
  proof (cases "adapter en (now ?w1) ?c1")
    case (Resolved r)
    then show ?thesis using assms(2) by (subst api_unfold) (simp add: Let_def)
  next
    case (Failed ro m)
    let ?err = "\<lparr>config = ?c1, response_of = ro, message = m\<rparr>"
    obtain h w3 where h: "response_error_interceptor en ?w2 ?err = (h, w3)"
      by (cases "response_error_interceptor en ?w2 ?err")
    have wh: "whole (items w3)"
      using interceptor_whole [of en ?w2 ?err] assms h by simp
    show ?thesis
    proof (cases h)
      case (Reject f)
      with Failed h wh show ?thesis by (subst api_unfold) (simp add: Let_def)
    next
      case (Replay r)
      with h have "retry r" by (simp add: replay_marked)
      then have "api en w3 r = dispatch Api en (emit (Get ''accessToken'') w3) (fst (request_interceptor en w3 r))"
        by (rule api_retried)
      with Failed h wh Replay show ?thesis by (subst api_unfold) (simp add: Let_def)
    qed
  qed
qed

lemma request_interceptor_keeps:
  "method (fst (request_interceptor en w cfg)) = method cfg"
  "baseURL (fst (request_interceptor en w cfg)) = baseURL cfg"
  "url (fst (request_interceptor en w cfg)) = url cfg"
  "body (fst (request_interceptor en w cfg)) = body cfg"
  "k \<noteq> ''Authorization'' \<Longrightarrow> headers (fst (request_interceptor en w cfg)) k = headers cfg k"
  by (simp_all add: request_interceptor_def getItemAsync_def split: option.splits)

subsection \<open>The single retry\<close>

text \<open>
  C1. One call of the pipeline makes at most one refresh request and sends the request at
  most twice (the original and one replay). A request that carries the retry mark runs
  through the pipeline as a plain send, whatever the answer, a 401 included: its result is
  the result of that send. Every request the response interceptor replays carries the mark,
  which is set before the refresh starts.
\<close>

theorem single_retry:
  "length (filter is_refresh (added w (snd (api en w cfg)))) \<le> 1 \<and>
   length (filter is_send (added w (snd (api en w cfg)))) \<le> 2 \<and>
   (retry cfg \<longrightarrow>
      api en w cfg = dispatch Api en (emit (Get ''accessToken'') w) (fst (request_interceptor en w cfg))) \<and>
   (fst (response_error_interceptor en w2 err) = Replay r \<longrightarrow> retry r)"
proof -
  obtain evs where "trace (snd (api en w cfg)) =
       trace w @ Get ''accessToken'' # Send Api (fst (request_interceptor en w cfg)) # evs"
     "length (filter is_refresh evs) \<le> 1" "length (filter is_send evs) \<le> 1"
    using api_trace [of en w cfg] by auto
  moreover have "fst (response_error_interceptor en w2 err) = Replay r \<longrightarrow> retry r"
    using replay_marked [of en w2 err r "snd (response_error_interceptor en w2 err)"]
    by (cases "response_error_interceptor en w2 err") simp
  ultimately show ?thesis
    using api_retried [of cfg en w] by (simp add: added_append)
qed

theorem single_retry_witness:
  "retry (fields_request\<lparr>retry := True\<rparr>) \<and>
   api (device never) stored_pair (fields_request\<lparr>retry := True\<rparr>) =
     (Inl (AxiosError (rejected (fields_request
        \<lparr>headers := (headers fields_request)(''Authorization'' \<mapsto> ''Bearer A1''), retry := True\<rparr>))),
      stored_pair\<lparr>trace := [Get ''accessToken'', Send Api (fields_request
        \<lparr>headers := (headers fields_request)(''Authorization'' \<mapsto> ''Bearer A1''), retry := True\<rparr>)]\<rparr>) \<and>
   fst (response_error_interceptor (device never) stored_pair (rejected fields_request)) =
     Replay (fields_request
        \<lparr>headers := (headers fields_request)(''Authorization'' \<mapsto> ''Bearer A2''), retry := True\<rparr>) \<and>
   retry (fields_request
        \<lparr>headers := (headers fields_request)(''Authorization'' \<mapsto> ''Bearer A2''), retry := True\<rparr>)"
  using single_retry [of stored_pair "device never" "fields_request\<lparr>retry := True\<rparr>"
      stored_pair "rejected fields_request"
      "fields_request\<lparr>headers := (headers fields_request)(''Authorization'' \<mapsto> ''Bearer A2''),
         retry := True\<rparr>"]
  by (simp add: scenario_defs operation_defs Let_def)

text \<open>
  C2 (as amended). A request that is not marked gets a 401; the refresh token is read from
  the store without failure and is not empty, the refresh endpoint answers with a pair and
  both writes succeed. Then the store ends with the new pair, the pipeline has sent the
  request once more, marked and under \<^verbatim>\<open>Authorization: Bearer\<close> with the new access
  token, and the caller gets what that send gave, success or failure. The events listed are
  all the pipeline did.
\<close>

theorem refresh_and_replay:
  assumes "\<not> retry cfg"
    and "adapter en (now w + 1) (fst (request_interceptor en w cfg)) = Failed (Some r) m"
    and "status r = 401"
    and "\<not> store_fault en (now w + 2)"
    and "items w ''refreshToken'' = Some rt" and "rt \<noteq> []"
    and "adapter en (now w + 3) (refresh_request rt) = Resolved resp"
    and "map_of (data resp) ''accessToken'' = Some a2"
    and "map_of (data resp) ''refreshToken'' = Some r2"
    and "\<not> store_fault en (now w + 4)" and "\<not> store_fault en (now w + 5)"
  shows "let c1 = fst (request_interceptor en w cfg);
             c2 = c1\<lparr>headers := (headers c1)(''Authorization'' \<mapsto> ''Bearer '' @ a2), retry := True\<rparr>;
             w' = snd (api en w cfg)
         in items w' ''accessToken'' = Some a2 \<and> items w' ''refreshToken'' = Some r2 \<and>
            added w w' =
              [Get ''accessToken'', Send Api c1, Get ''refreshToken'', Send Axios (refresh_request rt),
               Set ''accessToken'' a2, Set ''refreshToken'' r2, Get ''accessToken'', Send Api c2] \<and>
            fst (api en w cfg) =
              (case adapter en (now w + 7) c2 of
                 Resolved r' \<Rightarrow> Inr r'
               | Failed ro m' \<Rightarrow> Inl (AxiosError \<lparr>config = c2, response_of = ro, message = m'\<rparr>))"
proof -
  let ?c1 = "fst (request_interceptor en w cfg)"
  let ?c2 = "?c1\<lparr>headers := (headers ?c1)(''Authorization'' \<mapsto> ''Bearer '' @ a2), retry := True\<rparr>"
  let ?w2 = "emit (Send Api ?c1) (emit (Get ''accessToken'') w)"
  let ?err = "\<lparr>config = ?c1, response_of = Some r, message = m\<rparr>"
  let ?w6 = "snd (refresh_block en ?w2 (?c1\<lparr>retry := True\<rparr>))"
  have n: "now w + 3 = Suc (Suc (Suc (now w)))" "now w + 4 = Suc (Suc (Suc (Suc (now w))))"
    "now w + 5 = Suc (Suc (Suc (Suc (Suc (now w)))))"
    "now w + 7 = Suc (Suc (Suc (Suc (Suc (Suc (Suc (now w)))))))"
    by simp_all
  have nr: "\<not> retry ?c1" using assms(1) by (simp add: request_interceptor_retry)
  have rb: "fst (refresh_block en ?w2 (?c1\<lparr>retry := True\<rparr>)) = Inr (Some ?c2)"
    and it: "items ?w6 = (items w)(''accessToken'' \<mapsto> a2, ''refreshToken'' \<mapsto> r2)"
    and tr: "trace ?w6 = trace ?w2 @ [Get ''refreshToken'', Send Axios (refresh_request rt),
               Set ''accessToken'' a2, Set ''refreshToken'' r2]"
    using assms
    by (simp_all add: refresh_block_def getItemAsync_def axios_post_def dispatch_def setItemAsync_def
        refresh_request_def template_def n)
  have h: "response_error_interceptor en ?w2 ?err = (Replay ?c2, ?w6)"
    using nr assms(3) rb
    by (cases "refresh_block en ?w2 (?c1\<lparr>retry := True\<rparr>)")
      (simp add: response_error_interceptor_def is401_def Let_def)
  have ri: "fst (request_interceptor en ?w6 ?c2) = ?c2"
    using it by (cases "a2 = []") (auto simp: request_interceptor_def getItemAsync_def)
  have a: "api en ?w6 ?c2 = dispatch Api en (emit (Get ''accessToken'') ?w6) ?c2"
    using api_retried [of ?c2 en ?w6] ri by simp
  have res: "api en w cfg = dispatch Api en (emit (Get ''accessToken'') ?w6) ?c2"
    using assms(2) h a by (subst api_unfold) (simp add: Let_def)
  have nw: "now ?w6 = now w + 6" using tr by (simp add: now_def)
  have tw: "trace (snd (api en w cfg)) = trace ?w6 @ [Get ''accessToken'', Send Api ?c2]"
    and iw: "items (snd (api en w cfg)) = items ?w6"
    by (simp_all add: res)
  have ad: "added w (snd (api en w cfg)) =
      [Get ''accessToken'', Send Api ?c1, Get ''refreshToken'', Send Axios (refresh_request rt),
       Set ''accessToken'' a2, Set ''refreshToken'' r2, Get ''accessToken'', Send Api ?c2]"
    by (rule added_append) (simp add: tw tr)
  have fs: "fst (api en w cfg) =
      (case adapter en (now w + 7) ?c2 of
         Resolved r' \<Rightarrow> Inr r'
       | Failed ro m' \<Rightarrow> Inl (AxiosError \<lparr>config = ?c2, response_of = ro, message = m'\<rparr>))"
  proof -
    have "now (emit (Get ''accessToken'') ?w6) = now w + 7" using nw by simp
    then show ?thesis
      by (cases "adapter en (now w + 7) ?c2") (simp_all add: res dispatch_def del: now_emit)
  qed
  show ?thesis
    unfolding Let_def using iw it ad fs by simp
qed


theorem refresh_and_replay_witness:
  "\<not> retry fields_request \<and>
   adapter (device never) (now stored_pair + 1)
     (fst (request_interceptor (device never) stored_pair fields_request)) =
     Failed (Some unauthorized) ''Request failed with status code 401'' \<and>
   status unauthorized = 401 \<and>
   items stored_pair ''refreshToken'' = Some ''R1'' \<and>
   adapter (device never) (now stored_pair + 3) (refresh_request ''R1'') = Resolved fresh_pair \<and>
   map_of (data fresh_pair) ''accessToken'' = Some ''A2'' \<and>
   map_of (data fresh_pair) ''refreshToken'' = Some ''R2'' \<and>
   items (snd (api (device never) stored_pair fields_request)) ''accessToken'' = Some ''A2'' \<and>
   items (snd (api (device never) stored_pair fields_request)) ''refreshToken'' = Some ''R2'' \<and>
   fst (api (device never) stored_pair fields_request) = Inr accepted \<and>
   length (filter is_send (added stored_pair (snd (api (device never) stored_pair fields_request)))) = 2"
  using refresh_and_replay [of fields_request "device never" stored_pair unauthorized
      "''Request failed with status code 401''" "''R1''" fresh_pair "''A2''" "''R2''"]
  by (simp add: scenario_defs operation_defs Let_def)

text \<open>
  C2 as stated fails when the store does not take the writes. The store holds \<open>A1\<close>,
  \<open>R1\<close>, the request gets a 401, the refresh endpoint answers \<open>A2\<close>, \<open>R2\<close>, and every
  call of the store from the first write on throws: nothing is persisted, nothing is sent
  again, and the caller gets the error of the first deletion. It fails also on a stored
  refresh token that is the empty string: no refresh is asked for and the caller gets the
  401.
\<close>

theorem refresh_lost_when_store_unavailable:
  "\<not> retry fields_request \<and>
   adapter (device (from_moment 4)) 1
     (fst (request_interceptor (device (from_moment 4)) stored_pair fields_request)) =
     Failed (Some unauthorized) ''Request failed with status code 401'' \<and>
   items stored_pair ''refreshToken'' = Some ''R1'' \<and>
   adapter (device (from_moment 4)) 3 (refresh_request ''R1'') = Resolved fresh_pair \<and>
   fst (api (device (from_moment 4)) stored_pair fields_request) =
     Inl (StoreFailure (Delete ''accessToken'')) \<and>
   items (snd (api (device (from_moment 4)) stored_pair fields_request)) ''accessToken'' = Some ''A1'' \<and>
   items (snd (api (device (from_moment 4)) stored_pair fields_request)) ''refreshToken'' = Some ''R1'' \<and>
   length (filter is_send (added stored_pair (snd (api (device (from_moment 4)) stored_pair fields_request)))) = 1 \<and>
   items empty_refresh ''refreshToken'' = Some [] \<and>
   adapter (device never) 3 (refresh_request []) = Resolved fresh_pair \<and>
   fst (api (device never) empty_refresh fields_request) =
     Inl (AxiosError (rejected (fields_request
        \<lparr>headers := (headers fields_request)(''Authorization'' \<mapsto> ''Bearer A1''), retry := True\<rparr>))) \<and>
   items (snd (api (device never) empty_refresh fields_request)) ''accessToken'' = Some ''A1'' \<and>
   length (filter is_send (added empty_refresh (snd (api (device never) empty_refresh fields_request)))) = 1"
  using api_unfold [of "device (from_moment 4)" stored_pair fields_request]
    api_unfold [of "device never" empty_refresh fields_request]
  by (simp add: scenario_defs empty_refresh_def operation_defs added_def Let_def)

subsection \<open>Failure of the refresh\<close>

text \<open>
  C3 (as amended). A request that is not marked gets a 401, and the refresh token is read
  from the store and is not empty. The refresh attempt fails in one of three ways: the
  refresh endpoint rejects (with a response or without one), the write of the new access
  token throws, or the write of the new refresh token throws. In each case the interceptor
  replays nothing and sends nothing through the instance; and if the two deletions of the
  \<^verbatim>\<open>catch\<close> block then succeed, both tokens are gone from the store and the caller
  gets the original 401 error, its request marked, not the error of the refresh.
\<close>

theorem refresh_failure:
  assumes "is401 err" and "\<not> retry (config err)"
    and "\<not> store_fault en (now w)" and "items w ''refreshToken'' = Some rt" and "rt \<noteq> []"
  shows "let h = fst (response_error_interceptor en w err);
             w' = snd (response_error_interceptor en w err)
         in (adapter en (now w + 1) (refresh_request rt) = Failed ro m \<longrightarrow>
               (\<forall>r. h \<noteq> Replay r) \<and> filter is_send (added w w') = [] \<and>
               (\<not> store_fault en (now w + 2) \<and> \<not> store_fault en (now w + 3) \<longrightarrow>
                  h = Reject (AxiosError (marked err)) \<and>
                  items w' ''accessToken'' = None \<and> items w' ''refreshToken'' = None)) \<and>
            (adapter en (now w + 1) (refresh_request rt) = Resolved resp \<and>
             map_of (data resp) ''accessToken'' = Some a \<and> store_fault en (now w + 2) \<longrightarrow>
               (\<forall>r. h \<noteq> Replay r) \<and> filter is_send (added w w') = [] \<and>
               (\<not> store_fault en (now w + 3) \<and> \<not> store_fault en (now w + 4) \<longrightarrow>
                  h = Reject (AxiosError (marked err)) \<and>
                  items w' ''accessToken'' = None \<and> items w' ''refreshToken'' = None)) \<and>
            (adapter en (now w + 1) (refresh_request rt) = Resolved resp \<and>
             map_of (data resp) ''accessToken'' = Some a \<and> \<not> store_fault en (now w + 2) \<and>
             map_of (data resp) ''refreshToken'' = Some r2 \<and> store_fault en (now w + 3) \<longrightarrow>
               (\<forall>r. h \<noteq> Replay r) \<and> filter is_send (added w w') = [] \<and>
               (\<not> store_fault en (now w + 4) \<and> \<not> store_fault en (now w + 5) \<longrightarrow>
                  h = Reject (AxiosError (marked err)) \<and>
                  items w' ''accessToken'' = None \<and> items w' ''refreshToken'' = None))"
proof -
  let ?r = "(config err)\<lparr>retry := True\<rparr>"
  let ?h = "fst (response_error_interceptor en w err)"
  let ?w' = "snd (response_error_interceptor en w err)"
  have n: "now w + 3 = Suc (Suc (Suc (now w)))" "now w + 4 = Suc (Suc (Suc (Suc (now w))))"
    "now w + 5 = Suc (Suc (Suc (Suc (Suc (now w)))))"
    by simp_all
  obtain evs where e: "trace ?w' = trace w @ evs" "filter is_send evs = []"
    using interceptor_trace [of en w err] by auto
  have s: "filter is_send (added w ?w') = []"
    using e by (simp add: added_append)
  have a: "(\<forall>r. ?h \<noteq> Replay r) \<and>
      (\<not> store_fault en (now w + 2) \<and> \<not> store_fault en (now w + 3) \<longrightarrow>
         ?h = Reject (AxiosError (marked err)) \<and>
         items ?w' ''accessToken'' = None \<and> items ?w' ''refreshToken'' = None)"
    if "adapter en (now w + 1) (refresh_request rt) = Failed ro m"
    using that assms
    by (simp add: response_error_interceptor_def Let_def refresh_block_def getItemAsync_def
        axios_post_def dispatch_def clear_tokens_def deleteItemAsync_def refresh_request_def
        marked_def n)
  have b: "(\<forall>r. ?h \<noteq> Replay r) \<and>
      (\<not> store_fault en (now w + 3) \<and> \<not> store_fault en (now w + 4) \<longrightarrow>
         ?h = Reject (AxiosError (marked err)) \<and>
         items ?w' ''accessToken'' = None \<and> items ?w' ''refreshToken'' = None)"
    if "adapter en (now w + 1) (refresh_request rt) = Resolved resp"
      "map_of (data resp) ''accessToken'' = Some a" "store_fault en (now w + 2)"
    using that assms
    by (simp add: response_error_interceptor_def Let_def refresh_block_def getItemAsync_def
        axios_post_def dispatch_def setItemAsync_def clear_tokens_def deleteItemAsync_def
        refresh_request_def marked_def n)
  have c: "(\<forall>r. ?h \<noteq> Replay r) \<and>
      (\<not> store_fault en (now w + 4) \<and> \<not> store_fault en (now w + 5) \<longrightarrow>
         ?h = Reject (AxiosError (marked err)) \<and>
         items ?w' ''accessToken'' = None \<and> items ?w' ''refreshToken'' = None)"
    if "adapter en (now w + 1) (refresh_request rt) = Resolved resp"
      "map_of (data resp) ''accessToken'' = Some a" "\<not> store_fault en (now w + 2)"
      "map_of (data resp) ''refreshToken'' = Some r2" "store_fault en (now w + 3)"
    using that assms
    by (simp add: response_error_interceptor_def Let_def refresh_block_def getItemAsync_def
        axios_post_def dispatch_def setItemAsync_def clear_tokens_def deleteItemAsync_def
        refresh_request_def marked_def n)
  show ?thesis
    unfolding Let_def using s a b c by blast
qed


theorem refresh_failure_witness:
  "is401 (rejected fields_request) \<and> \<not> retry (config (rejected fields_request)) \<and>
   \<not> store_fault (device never) (now stale_pair) \<and> items stale_pair ''refreshToken'' = Some ''R0'' \<and>
   adapter (device never) (now stale_pair + 1) (refresh_request ''R0'') =
     Failed (Some unauthorized) ''Request failed with status code 401'' \<and>
   fst (response_error_interceptor (device never) stale_pair (rejected fields_request)) =
     Reject (AxiosError (marked (rejected fields_request))) \<and>
   items (snd (response_error_interceptor (device never) stale_pair (rejected fields_request)))
     ''accessToken'' = None \<and>
   items (snd (response_error_interceptor (device never) stale_pair (rejected fields_request)))
     ''refreshToken'' = None \<and>
   adapter (device (only_at 2)) (now stored_pair + 1) (refresh_request ''R1'') = Resolved fresh_pair \<and>
   map_of (data fresh_pair) ''accessToken'' = Some ''A2'' \<and>
   store_fault (device (only_at 2)) (now stored_pair + 2) \<and>
   fst (response_error_interceptor (device (only_at 2)) stored_pair (rejected fields_request)) =
     Reject (AxiosError (marked (rejected fields_request))) \<and>
   items (snd (response_error_interceptor (device (only_at 2)) stored_pair (rejected fields_request)))
     ''accessToken'' = None \<and>
   map_of (data fresh_pair) ''refreshToken'' = Some ''R2'' \<and>
   store_fault (device (only_at 3)) (now stored_pair + 3) \<and>
   fst (response_error_interceptor (device (only_at 3)) stored_pair (rejected fields_request)) =
     Reject (AxiosError (marked (rejected fields_request))) \<and>
   items (snd (response_error_interceptor (device (only_at 3)) stored_pair (rejected fields_request)))
     ''accessToken'' = None \<and>
   items (snd (response_error_interceptor (device (only_at 3)) stored_pair (rejected fields_request)))
     ''refreshToken'' = None"
  using refresh_failure [of "rejected fields_request" "device never" stale_pair "''R0''"
      "Some unauthorized" "''Request failed with status code 401''" fresh_pair "''A2''" "''R2''"]
    refresh_failure [of "rejected fields_request" "device (only_at 2)" stored_pair "''R1''"
      "Some unauthorized" "''Request failed with status code 401''" fresh_pair "''A2''" "''R2''"]
    refresh_failure [of "rejected fields_request" "device (only_at 3)" stored_pair "''R1''"
      "Some unauthorized" "''Request failed with status code 401''" fresh_pair "''A2''" "''R2''"]
  by (simp add: scenario_defs is401_def now_def Let_def)

text \<open>
  C3 as stated fails when the store stays unavailable: the refresh token is read, the
  endpoint answers with a pair, the first write throws, and so does the first deletion of
  the \<^verbatim>\<open>catch\<close> block. The caller gets the error of that deletion and both old tokens
  are still stored.
\<close>

theorem cleanup_throws_when_store_unavailable:
  "is401 (rejected fields_request) \<and> \<not> retry (config (rejected fields_request)) \<and>
   fst (refresh_block (device (from_moment 2)) stored_pair ((config (rejected fields_request))\<lparr>retry := True\<rparr>)) =
     Inl (StoreFailure (Set ''accessToken'' ''A2'')) \<and>
   fst (response_error_interceptor (device (from_moment 2)) stored_pair (rejected fields_request)) =
     Reject (StoreFailure (Delete ''accessToken'')) \<and>
   items (snd (response_error_interceptor (device (from_moment 2)) stored_pair (rejected fields_request)))
     ''accessToken'' = Some ''A1'' \<and>
   items (snd (response_error_interceptor (device (from_moment 2)) stored_pair (rejected fields_request)))
     ''refreshToken'' = Some ''R1''"
  by (simp add: scenario_defs operation_defs Let_def)

text \<open>
  C4 (as amended). A request that is not marked gets a 401 and the store, read without
  failure, has no refresh token (or an empty one). Then the interceptor marks the request,
  reads the store once and does nothing else: no refresh request, no replay, the store
  contents as they were, and the caller gets the original 401 error.
\<close>

theorem no_refresh_token:
  assumes "is401 err" and "\<not> retry (config err)" and "\<not> store_fault en (now w)"
    and "items w ''refreshToken'' = None \<or> items w ''refreshToken'' = Some []"
  shows "response_error_interceptor en w err =
           (Reject (AxiosError (marked err)), emit (Get ''refreshToken'') w) \<and>
         items (snd (response_error_interceptor en w err)) = items w"
  using assms by (simp add: response_error_interceptor_def Let_def refresh_block_absent marked_def)

theorem no_refresh_token_witness:
  "is401 (rejected fields_request) \<and> \<not> retry (config (rejected fields_request)) \<and>
   \<not> store_fault (device never) (now access_only) \<and>
   items access_only ''refreshToken'' = None \<and>
   response_error_interceptor (device never) access_only (rejected fields_request) =
     (Reject (AxiosError (marked (rejected fields_request))), emit (Get ''refreshToken'') access_only)"
  using no_refresh_token [of "rejected fields_request" "device never" access_only]
  by (simp add: scenario_defs access_only_def is401_def now_def)

text \<open>
  C4 as stated fails on a store that holds an access token and no refresh token: the
  \<^verbatim>\<open>catch\<close> block is not entered and the access token stays.
\<close>

theorem access_token_kept:
  "is401 (rejected fields_request) \<and> \<not> retry (config (rejected fields_request)) \<and>
   items access_only ''refreshToken'' = None \<and>
   fst (response_error_interceptor (device never) access_only (rejected fields_request)) =
     Reject (AxiosError (marked (rejected fields_request))) \<and>
   items (snd (response_error_interceptor (device never) access_only (rejected fields_request)))
     ''accessToken'' = Some ''A1''"
  by (simp add: scenario_defs access_only_def operation_defs Let_def)

subsection \<open>The request interceptor\<close>

text \<open>
  C5 (as amended). When the read of the store succeeds: a stored, non-empty access token
  is attached as \<^verbatim>\<open>Authorization: Bearer\<close> followed by exactly that token, and nothing
  else of the request changes; with no access token stored, or an empty one, the interceptor
  adds no header and the request goes out as the caller made it, so without an
  \<^verbatim>\<open>Authorization\<close> header when the caller set none. The request the interceptor
  returns is the one the pipeline sends first.
\<close>

theorem bearer_attached:
  assumes "\<not> store_fault en (now w)"
  shows "(\<forall>tok. items w ''accessToken'' = Some tok \<and> tok \<noteq> [] \<longrightarrow>
            fst (request_interceptor en w cfg) =
              cfg\<lparr>headers := (headers cfg)(''Authorization'' \<mapsto> ''Bearer '' @ tok)\<rparr>) \<and>
         (items w ''accessToken'' = None \<or> items w ''accessToken'' = Some [] \<longrightarrow>
            fst (request_interceptor en w cfg) = cfg \<and>
            (headers cfg ''Authorization'' = None \<longrightarrow>
               headers (fst (request_interceptor en w cfg)) ''Authorization'' = None)) \<and>
         take 2 (added w (snd (api en w cfg))) =
           [Get ''accessToken'', Send Api (fst (request_interceptor en w cfg))]"
  using assms by (auto simp: api_first_events request_interceptor_def getItemAsync_def)

theorem bearer_attached_witness:
  "\<not> store_fault (device never) (now stored_pair) \<and>
   items stored_pair ''accessToken'' = Some ''A1'' \<and> ''A1'' \<noteq> [] \<and>
   take 2 (added stored_pair (snd (api (device never) stored_pair fields_request))) =
     [Get ''accessToken'',
      Send Api (fields_request\<lparr>headers := (headers fields_request)(''Authorization'' \<mapsto> ''Bearer A1'')\<rparr>)] \<and>
   \<not> store_fault (device never) (now empty_store) \<and>
   items empty_store ''accessToken'' = None \<and> headers fields_request ''Authorization'' = None \<and>
   take 2 (added empty_store (snd (api (device never) empty_store fields_request))) =
     [Get ''accessToken'', Send Api fields_request] \<and>
   headers (fst (request_interceptor (device never) empty_store fields_request)) ''Authorization'' = None"
  using bearer_attached [of "device never" stored_pair fields_request]
    bearer_attached [of "device never" empty_store fields_request]
  by (simp add: scenario_defs now_def)

text \<open>
  C5 as stated fails on three inputs: a stored access token that is the empty string
  (nothing is attached), a stored access token whose read throws (nothing is attached), and
  an empty store under a request that already carries an \<^verbatim>\<open>Authorization\<close> header
  (the header is sent).
\<close>

theorem bearer_not_attached:
  "items empty_access ''accessToken'' = Some [] \<and>
   take 2 (added empty_access (snd (api (device never) empty_access fields_request))) =
     [Get ''accessToken'', Send Api fields_request] \<and>
   headers fields_request ''Authorization'' = None \<and>
   items stored_pair ''accessToken'' = Some ''A1'' \<and> store_fault (device (only_at 0)) (now stored_pair) \<and>
   take 2 (added stored_pair (snd (api (device (only_at 0)) stored_pair fields_request))) =
     [Get ''accessToken'', Send Api fields_request] \<and>
   items empty_store ''accessToken'' = None \<and>
   take 2 (added empty_store (snd (api (device never) empty_store signed_request))) =
     [Get ''accessToken'', Send Api signed_request] \<and>
   headers signed_request ''Authorization'' = Some ''Bearer X''"
  by (simp add: api_first_events scenario_defs empty_access_def signed_request_def
      request_interceptor_def getItemAsync_def now_def)

subsection \<open>Errors passed through\<close>

text \<open>
  C6. An error that is not a 401 (another status, or no response at all) and a 401 on a
  marked request leave the response interceptor as they came, in an unchanged world: no
  refresh, no replay. Seen from the caller of the pipeline: when the send fails so, the
  pipeline rejects with exactly that error after the one read of the store and the one send.
\<close>

theorem error_passed_unchanged:
  "(\<not> is401 err \<or> retry (config err) \<longrightarrow>
      response_error_interceptor en w err = (Reject (AxiosError err), w)) \<and>
   (let c1 = fst (request_interceptor en w cfg);
        failed = \<lparr>config = c1, response_of = ro, message = m\<rparr>
    in adapter en (now w + 1) c1 = Failed ro m \<and> (\<not> is401 failed \<or> retry cfg) \<longrightarrow>
       api en w cfg = (Inl (AxiosError failed), emit (Send Api c1) (emit (Get ''accessToken'') w)))"
  using api_passthrough [of en w cfg ro m]
  by (simp add: interceptor_passthrough Let_def)

theorem error_passed_unchanged_witness:
  "\<not> is401 (server_error fields_request) \<and>
   response_error_interceptor (device never) stored_pair (server_error fields_request) =
     (Reject (AxiosError (server_error fields_request)), stored_pair) \<and>
   is401 (marked (rejected fields_request)) \<and> retry (config (marked (rejected fields_request))) \<and>
   response_error_interceptor (device never) stored_pair (marked (rejected fields_request)) =
     (Reject (AxiosError (marked (rejected fields_request))), stored_pair) \<and>
   retry (config (marked (rejected fields_request))) \<and>
   fst (api (device never) empty_store (config (marked (rejected fields_request)))) =
     Inl (AxiosError (marked (rejected fields_request)))"
  using error_passed_unchanged [of "server_error fields_request" "device never" stored_pair]
    error_passed_unchanged [of "marked (rejected fields_request)" "device never" stored_pair]
    error_passed_unchanged [of "marked (rejected fields_request)" "device never" empty_store
       "config (marked (rejected fields_request))" "Some unauthorized" "''Request failed with status code 401''"]
  by (simp add: scenario_defs server_error_def is401_def request_interceptor_def getItemAsync_def now_def Let_def)

subsection \<open>The token pair in the store\<close>

text \<open>
  C7 (as amended). When no call of the store throws: after \<^verbatim>\<open>login\<close> the store holds
  both tokens of the pair, after \<^verbatim>\<open>logout\<close> it holds neither, and the response
  interceptor and the whole pipeline, started on a store with both tokens or neither, end on
  such a store, whether they end with a response or with an error.
\<close>

theorem whole_without_store_failure:
  assumes "\<forall>t. \<not> store_fault en t"
  shows "items (snd (login en w t)) ''accessToken'' = Some (accessToken t) \<and>
         items (snd (login en w t)) ''refreshToken'' = Some (refreshToken t) \<and>
         items (logout en w) ''accessToken'' = None \<and>
         items (logout en w) ''refreshToken'' = None \<and>
         (whole (items w) \<longrightarrow>
            whole (items (snd (response_error_interceptor en w err))) \<and>
            whole (items (snd (api en w cfg))))"
  using assms interceptor_whole [of en w err] api_whole [of en w cfg]
  by (simp add: login_def logout_def setItemAsync_def deleteItemAsync_def)

theorem whole_without_store_failure_witness:
  "(\<forall>t. \<not> store_fault (device never) t) \<and> whole (items stale_pair) \<and>
   items (snd (login (device never) stale_pair \<lparr>accessToken = ''A1'', refreshToken = ''R1''\<rparr>)) ''accessToken'' = Some ''A1'' \<and>
   items (snd (login (device never) stale_pair \<lparr>accessToken = ''A1'', refreshToken = ''R1''\<rparr>)) ''refreshToken'' = Some ''R1'' \<and>
   items (logout (device never) stale_pair) ''accessToken'' = None \<and>
   whole (items (snd (response_error_interceptor (device never) stale_pair (rejected fields_request)))) \<and>
   whole (items (snd (api (device never) stale_pair fields_request)))"
  using whole_without_store_failure [of "device never" stale_pair
      "\<lparr>accessToken = ''A1'', refreshToken = ''R1''\<rparr>" "rejected fields_request" fields_request]
  by (simp add: scenario_defs whole_def)

text \<open>
  C7 as stated fails: the two tokens are written by two calls, and in \<^verbatim>\<open>login\<close> on
  an empty store the second write throws after the first has succeeded. \<^verbatim>\<open>login\<close>
  ends with that error and the store holds the access token alone.
\<close>

theorem login_half_stored:
  "whole (items empty_store) \<and>
   fst (login (device (only_at 1)) empty_store \<lparr>accessToken = ''A1'', refreshToken = ''R1''\<rparr>) =
     Inl (StoreFailure (Set ''refreshToken'' ''R1'')) \<and>
   items (snd (login (device (only_at 1)) empty_store \<lparr>accessToken = ''A1'', refreshToken = ''R1''\<rparr>))
     ''accessToken'' = Some ''A1'' \<and>
   items (snd (login (device (only_at 1)) empty_store \<lparr>accessToken = ''A1'', refreshToken = ''R1''\<rparr>))
     ''refreshToken'' = None \<and>
   \<not> whole (items (snd (login (device (only_at 1)) empty_store \<lparr>accessToken = ''A1'', refreshToken = ''R1''\<rparr>)))"
  by (simp add: scenario_defs operation_defs login_def whole_def)

subsection \<open>The requests to the auth endpoint\<close>

text \<open>
  C8. \<^verbatim>\<open>authService.login\<close> sends, as the first request of its pipeline call, a POST
  to \<^verbatim>\<open>/auth/login\<close> whose body is the form with the fields \<open>email\<close> and
  \<open>password\<close> under the content type \<^verbatim>\<open>multipart/form-data\<close>, and returns the body
  of the response when that request resolves. The refresh step, once it has read a
  non-empty refresh token, sends a POST to \<^verbatim>\<open>/auth/refresh\<close> under the base URL whose
  body is the JSON object with the one field \<open>refreshToken\<close>.
\<close>

theorem login_and_refresh_requests:
  "(let c1 = fst (request_interceptor en w (login_config c))
    in take 2 (added w (snd (authService_login en w c))) = [Get ''accessToken'', Send Api c1] \<and>
       method c1 = ''post'' \<and> url c1 = ''/auth/login'' \<and>
       body c1 = FormData [(''email'', email c), (''password'', password c)] \<and>
       headers c1 ''Content-Type'' = Some ''multipart/form-data'' \<and>
       (\<forall>r. adapter en (now w + 1) c1 = Resolved r \<longrightarrow> fst (authService_login en w c) = Inr (data r))) \<and>
   (is401 err \<and> \<not> retry (config err) \<and> \<not> store_fault en (now w) \<and>
    items w ''refreshToken'' = Some rt \<and> rt \<noteq> [] \<longrightarrow>
      take 2 (added w (snd (response_error_interceptor en w err))) =
        [Get ''refreshToken'', Send Axios (refresh_request rt)] \<and>
      method (refresh_request rt) = ''post'' \<and>
      url (refresh_request rt) = API_BASE_URL @ ''/auth/refresh'' \<and>
      body (refresh_request rt) = JsonBody [(''refreshToken'', rt)])"
proof -
  let ?c1 = "fst (request_interceptor en w (login_config c))"
  have eq: "snd (authService_login en w c) = snd (api en w (login_config c))"
    by (cases "api en w (login_config c)")
      (simp add: authService_login_def api_post_def login_config_def Let_def split: sum.splits)
  have a: "take 2 (added w (snd (authService_login en w c))) = [Get ''accessToken'', Send Api ?c1]"
    by (simp add: eq api_first_events)
  have b: "fst (authService_login en w c) = Inr (data r)" if "adapter en (now w + 1) ?c1 = Resolved r" for r
  proof -
    have "api en w (login_config c) = (Inr r, emit (Send Api ?c1) (emit (Get ''accessToken'') w))"
      using that by (subst api_unfold) (simp add: Let_def)
    then show ?thesis
      by (simp add: authService_login_def api_post_def login_config_def Let_def)
  qed
  have c: "method ?c1 = ''post''" "url ?c1 = ''/auth/login''"
    "body ?c1 = FormData [(''email'', email c), (''password'', password c)]"
    "headers ?c1 ''Content-Type'' = Some ''multipart/form-data''"
    by (simp_all add: request_interceptor_keeps login_config_def api_post_config_def)
  have d: "take 2 (added w (snd (response_error_interceptor en w err))) =
        [Get ''refreshToken'', Send Axios (refresh_request rt)]"
    if "is401 err" "\<not> retry (config err)" "\<not> store_fault en (now w)"
      "items w ''refreshToken'' = Some rt" "rt \<noteq> []"
  proof -
    let ?r = "(config err)\<lparr>retry := True\<rparr>"
    have "\<exists>evs. trace (snd (refresh_block en w ?r)) = trace w @ Get ''refreshToken'' # Send Axios (refresh_request rt) # evs"
      using that
      by (auto simp: refresh_block_def getItemAsync_def axios_post_def dispatch_def setItemAsync_def
          refresh_request_def split: option.splits reply.splits)
    then obtain evs where e: "trace (snd (refresh_block en w ?r)) = trace w @ Get ''refreshToken'' # Send Axios (refresh_request rt) # evs"
      by blast
    obtain x w1 where rb: "refresh_block en w ?r = (x, w1)" by (cases "refresh_block en w ?r")
    obtain evs2 where e2: "trace (snd (clear_tokens en w1)) = trace w1 @ evs2"
      using clear_tokens_trace [of en w1] by auto
    have "\<exists>evs. trace (snd (response_error_interceptor en w err)) = trace w @ Get ''refreshToken'' # Send Axios (refresh_request rt) # evs"
      using that(1,2) rb e e2
      by (cases x) (auto simp: response_error_interceptor_def Let_def split: option.splits prod.splits sum.splits)
    then show ?thesis by (auto simp: added_append)
  qed
  have e: "method (refresh_request rt) = ''post''" "url (refresh_request rt) = API_BASE_URL @ ''/auth/refresh''"
    "body (refresh_request rt) = JsonBody [(''refreshToken'', rt)]"
    by (simp_all add: refresh_request_def post_config_def)
  show ?thesis
    unfolding Let_def using a b c d e by blast
qed

theorem login_and_refresh_requests_witness:
  "adapter (device never) (now empty_store + 1)
     (fst (request_interceptor (device never) empty_store (login_config ann))) = Resolved issued_pair \<and>
   fst (authService_login (device never) empty_store ann) =
     Inr [(''accessToken'', ''A1''), (''refreshToken'', ''R1'')] \<and>
   is401 (rejected fields_request) \<and> \<not> retry (config (rejected fields_request)) \<and>
   \<not> store_fault (device never) (now stored_pair) \<and>
   items stored_pair ''refreshToken'' = Some ''R1'' \<and>
   take 2 (added stored_pair (snd (response_error_interceptor (device never) stored_pair (rejected fields_request)))) =
     [Get ''refreshToken'', Send Axios (refresh_request ''R1'')]"
  using login_and_refresh_requests [of "device never" empty_store ann "rejected fields_request" "''R1''"]
    login_and_refresh_requests [of "device never" stored_pair ann "rejected fields_request" "''R1''"]
  by (simp add: scenario_defs ann_def login_config_def api_post_config_def is401_def request_interceptor_def getItemAsync_def now_def Let_def)

subsection \<open>A failing read of the access token\<close>

text \<open>
  C9 (as amended). When the read of the access token throws, the request interceptor
  returns the request as it came and the pipeline still sends it: the error of the store is
  swallowed, the call does not fail before the send, and the interceptor adds no
  \<^verbatim>\<open>Authorization\<close> header.
\<close>

theorem read_failure_swallowed:
  assumes "store_fault en (now w)"
  shows "request_interceptor en w cfg = (cfg, emit (Get ''accessToken'') w) \<and>
         take 2 (added w (snd (api en w cfg))) = [Get ''accessToken'', Send Api cfg]"
proof -
  have "request_interceptor en w cfg = (cfg, emit (Get ''accessToken'') w)"
    using assms by (simp add: request_interceptor_def getItemAsync_def)
  then show ?thesis using api_first_events [of w en cfg] by simp
qed

theorem read_failure_swallowed_witness:
  "store_fault (device (only_at 0)) (now stored_pair) \<and>
   request_interceptor (device (only_at 0)) stored_pair fields_request =
     (fields_request, emit (Get ''accessToken'') stored_pair) \<and>
   take 2 (added stored_pair (snd (api (device (only_at 0)) stored_pair fields_request))) =
     [Get ''accessToken'', Send Api fields_request] \<and>
   headers fields_request ''Authorization'' = None"
  using read_failure_swallowed [of "device (only_at 0)" stored_pair fields_request]
  by (simp add: scenario_defs now_def)

text \<open>
  C9 as stated fails on a request that already carries the header. After a successful
  refresh line 56 sets \<^verbatim>\<open>Bearer A2\<close> on the request and line 57 sends it through the
  interceptor again; when that read of the store throws (the seventh event), the request
  goes out under \<^verbatim>\<open>Bearer A2\<close>. The same holds for a header the caller has set.
\<close>

theorem replay_keeps_bearer_when_read_throws:
  "store_fault (device (only_at 6)) 6 \<and>
   added stored_pair (snd (api (device (only_at 6)) stored_pair fields_request)) =
     [Get ''accessToken'',
      Send Api (fields_request\<lparr>headers := (headers fields_request)(''Authorization'' \<mapsto> ''Bearer A1'')\<rparr>),
      Get ''refreshToken'', Send Axios (refresh_request ''R1''),
      Set ''accessToken'' ''A2'', Set ''refreshToken'' ''R2'',
      Get ''accessToken'',
      Send Api (fields_request\<lparr>headers := (headers fields_request)(''Authorization'' \<mapsto> ''Bearer A2''),
         retry := True\<rparr>)] \<and>
   store_fault (device (only_at 0)) (now empty_store) \<and>
   take 2 (added empty_store (snd (api (device (only_at 0)) empty_store signed_request))) =
     [Get ''accessToken'', Send Api signed_request] \<and>
   headers signed_request ''Authorization'' = Some ''Bearer X''"
proof -
  have a: "store_fault (device (only_at 6)) 6"
    by (simp add: scenario_defs)
  have b: "added stored_pair (snd (api (device (only_at 6)) stored_pair fields_request)) =
     [Get ''accessToken'',
      Send Api (fields_request\<lparr>headers := (headers fields_request)(''Authorization'' \<mapsto> ''Bearer A1'')\<rparr>),
      Get ''refreshToken'', Send Axios (refresh_request ''R1''),
      Set ''accessToken'' ''A2'', Set ''refreshToken'' ''R2'',
      Get ''accessToken'',
      Send Api (fields_request\<lparr>headers := (headers fields_request)(''Authorization'' \<mapsto> ''Bearer A2''),
         retry := True\<rparr>)]"
    using api_unfold [of "device (only_at 6)" stored_pair fields_request]
    by (simp add: api_retried scenario_defs operation_defs added_def Let_def)
  have c: "store_fault (device (only_at 0)) (now empty_store)"
    by (simp add: scenario_defs now_def)
  have d: "take 2 (added empty_store (snd (api (device (only_at 0)) empty_store signed_request))) =
     [Get ''accessToken'', Send Api signed_request]"
    by (simp add: api_first_events scenario_defs request_interceptor_def getItemAsync_def now_def)
  have e: "headers signed_request ''Authorization'' = Some ''Bearer X''"
    by (simp add: signed_request_def)
  show ?thesis
    by (intro conjI a b c d e)
qed

subsection \<open>The store on the pass-through path\<close>

text \<open>
  C10. When the response interceptor passes an error through without a refresh (the error
  is not a 401, or its request is marked), the contents of the store are the same before
  and after, and neither the interceptor nor the pipeline call around it has called
  \<^verbatim>\<open>setItemAsync\<close> or \<^verbatim>\<open>deleteItemAsync\<close>.
\<close>

theorem store_untouched_on_pass:
  "(\<not> is401 err \<or> retry (config err) \<longrightarrow>
      items (snd (response_error_interceptor en w err)) = items w \<and>
      filter is_write (added w (snd (response_error_interceptor en w err))) = []) \<and>
   (let c1 = fst (request_interceptor en w cfg)
    in adapter en (now w + 1) c1 = Failed ro m \<and>
       (\<not> is401 \<lparr>config = c1, response_of = ro, message = m\<rparr> \<or> retry cfg) \<longrightarrow>
       items (snd (api en w cfg)) = items w \<and> filter is_write (added w (snd (api en w cfg))) = [])"
  using api_passthrough [of en w cfg ro m]
  by (auto simp: interceptor_passthrough Let_def added_def now_def)

theorem store_untouched_on_pass_witness:
  "\<not> is401 (network_error fields_request) \<and>
   items (snd (response_error_interceptor (device never) stored_pair (network_error fields_request))) =
     items stored_pair \<and>
   adapter (device never) (now stored_pair + 1)
     (fst (request_interceptor (device never) stored_pair (fields_request\<lparr>retry := True\<rparr>))) =
     Failed (Some unauthorized) ''Request failed with status code 401'' \<and>
   retry (fields_request\<lparr>retry := True\<rparr>) \<and>
   items (snd (api (device never) stored_pair (fields_request\<lparr>retry := True\<rparr>))) ''accessToken'' = Some ''A1'' \<and>
   items (snd (api (device never) stored_pair (fields_request\<lparr>retry := True\<rparr>))) ''refreshToken'' = Some ''R1'' \<and>
   filter is_write (added stored_pair (snd (api (device never) stored_pair (fields_request\<lparr>retry := True\<rparr>)))) = []"
  using store_untouched_on_pass [of "network_error fields_request" "device never" stored_pair
      "fields_request\<lparr>retry := True\<rparr>" "Some unauthorized" "''Request failed with status code 401''"]
  by (simp add: scenario_defs network_error_def is401_def request_interceptor_def getItemAsync_def now_def Let_def)

end
